theory Spec2Isabelle
  imports Complex_Main "HOL-Library.Log_Nat"
begin

section \<open>Numbers, vectors and 2x2 arrays\<close>

text \<open>
  The notebooks compute with Python numbers and small numpy arrays. The linear algebra
  and the energies are modelled in exact arithmetic (\<open>real\<close>, \<open>complex\<close>), where the
  code agrees with the model up to rounding. The shape predicate of the first notebook
  compares a sum of squares with a bound, and rounding decides the comparison near the
  bound; it is modelled on binary floating point as well. A vector of two components is
  a pair, a 2x2 array is a pair of rows.
\<close>

type_synonym 'a vec2 = "'a \<times> 'a"
type_synonym 'a mat2 = "('a \<times> 'a) \<times> ('a \<times> 'a)"

text \<open>Exceptions of the libraries the notebooks call, as values.\<close>

datatype error = LinAlgError | ValueError | OverflowError | LibraryError string

text \<open>\<open>M.T\<close>\<close>

definition transpose2 :: "'a mat2 \<Rightarrow> 'a mat2" where
  "transpose2 M = (case M of ((p, q), (u, v)) \<Rightarrow> ((p, u), (q, v)))"

text \<open>\<open>M.dot(N)\<close> on two 2x2 arrays: the matrix product.\<close>

definition dot :: "'a::comm_ring_1 mat2 \<Rightarrow> 'a mat2 \<Rightarrow> 'a mat2" where
  "dot M N = (case M of ((p, q), (u, v)) \<Rightarrow> (case N of ((p', q'), (u', v')) \<Rightarrow>
     ((p * p' + q * u', p * q' + q * v'), (u * p' + v * u', u * q' + v * v'))))"


text \<open>\<open>c * M\<close> and \<open>M * c\<close> with a scalar \<open>c\<close>: numpy multiplies every entry.\<close>

definition scalar_times :: "'a::comm_ring_1 \<Rightarrow> 'a mat2 \<Rightarrow> 'a mat2" where
  "scalar_times c M = (case M of ((p, q), (u, v)) \<Rightarrow> ((c * p, c * q), (c * u, c * v)))"

definition times_scalar :: "'a::comm_ring_1 mat2 \<Rightarrow> 'a \<Rightarrow> 'a mat2" where
  "times_scalar M c = (case M of ((p, q), (u, v)) \<Rightarrow> ((p * c, q * c), (u * c, v * c)))"

text \<open>\<open>M + N\<close> on two 2x2 arrays: the sum, entry by entry.\<close>

definition plus2 :: "'a::comm_ring_1 mat2 \<Rightarrow> 'a mat2 \<Rightarrow> 'a mat2" where
  "plus2 M N = (case M of ((p, q), (u, v)) \<Rightarrow> (case N of ((p', q'), (u', v')) \<Rightarrow>
     ((p + p', q + q'), (u + u', v + v'))))"

definition det2 :: "'a::comm_ring_1 mat2 \<Rightarrow> 'a" where
  "det2 M = (case M of ((p, q), (u, v)) \<Rightarrow> p * v - q * u)"

text \<open>
  \<open>np.linalg.inv(M)\<close>: the inverse of a square array; a singular array raises
  \<open>LinAlgError\<close>.
\<close>

definition linalg_inv :: "real mat2 \<Rightarrow> error + real mat2" where
  "linalg_inv M = (case M of ((p, q), (u, v)) \<Rightarrow>
     if det2 M = 0 then Inl LinAlgError
     else Inr ((v / det2 M, - q / det2 M), (- u / det2 M, p / det2 M)))"

text \<open>
  \<open>np.linalg.solve(M, y)\<close>: the solution \<open>x\<close> of \<open>M x = y\<close>; a singular \<open>M\<close> raises
  \<open>LinAlgError\<close>.
\<close>

definition linalg_solve :: "real mat2 \<Rightarrow> real vec2 \<Rightarrow> error + real vec2" where
  "linalg_solve M y = (case M of ((p, q), (u, v)) \<Rightarrow> (case y of (y0, y1) \<Rightarrow>
     if det2 M = 0 then Inl LinAlgError
     else Inr ((v * y0 - q * y1) / det2 M, (p * y1 - u * y0) / det2 M)))"

text \<open>The conjugate transpose of a complex 2x2 array.\<close>

definition dagger :: "complex mat2 \<Rightarrow> complex mat2" where
  "dagger M = (case M of ((p, q), (u, v)) \<Rightarrow> ((cnj p, cnj u), (cnj q, cnj v)))"


section \<open>Notebook 2.1: the circular quantum dot\<close>

text \<open>
  \<^verbatim>\<open>
  t = 1
  r = 15

  def circle(pos):
      x, y = pos
      return x**2 + y**2 < r**2
  \<close>
\<close>

definition t :: real where
  "t = 1"

definition r :: real where
  "r = 15"

definition circle :: "real vec2 \<Rightarrow> bool" where
  "circle pos = (case pos of (x, y) \<Rightarrow> x\<^sup>2 + y\<^sup>2 < r\<^sup>2)"

text \<open>
  \<open>circle\<close> above reads the arithmetic exactly. The lattice hands the predicate
  positions made of Python floats, so \<open>x**2\<close> and the sum are rounded; \<open>circle_float\<close>
  below is the function on floats.
\<close>

subsection \<open>Python floats and the predicate on them\<close>

text \<open>
  A finite Python float is a binary64 number: \<open>Finite mant ex\<close> stands for
  \<open>mant * 2 ^ ex\<close>, with a significand below \<open>2 ^ 53\<close>, an exponent of at least
  \<open>- 1074\<close> and a magnitude below \<open>2 ^ 1024\<close>.
\<close>

datatype pyfloat = Finite int int

definition fvalue :: "pyfloat \<Rightarrow> real" where
  "fvalue x = (case x of Finite mant ex \<Rightarrow>
     if 0 \<le> ex then real_of_int mant * 2 ^ nat ex else real_of_int mant / 2 ^ nat (- ex))"

definition is_double :: "pyfloat \<Rightarrow> bool" where
  "is_double x = (case x of Finite mant ex \<Rightarrow>
     \<bar>mant\<bar> < 2 ^ 53 \<and> - 1074 \<le> ex \<and> bitlen \<bar>mant\<bar> + ex \<le> 1024)"

text \<open>\<open>float(n)\<close> for an integer \<open>n\<close> of magnitude below \<open>2 ^ 53\<close>, and \<open>-x\<close>.\<close>

definition float_of_int :: "int \<Rightarrow> pyfloat" where
  "float_of_int n = Finite n 0"

definition fneg :: "pyfloat \<Rightarrow> pyfloat" where
  "fneg x = (case x of Finite mant ex \<Rightarrow> Finite (- mant) ex)"

text \<open>
  Rounding to the nearest float, ties to the even significand. \<open>round_half_even n s\<close> is
  \<open>n / 2 ^ s\<close> rounded to an integer. \<open>round_double n ex\<close> rounds the exact number
  \<open>n * 2 ^ ex\<close>: it keeps 53 significant bits, or fewer at the smallest exponent, and has
  no result when the rounded magnitude reaches \<open>2 ^ 1024\<close>.
\<close>

definition round_half_even :: "int \<Rightarrow> nat \<Rightarrow> int" where
  "round_half_even n s =
     (let q = n div 2 ^ s; rest = n mod 2 ^ s in
      if 2 ^ s < 2 * rest \<or> (2 * rest = 2 ^ s \<and> odd q) then q + 1 else q)"

definition round_double :: "int \<Rightarrow> int \<Rightarrow> pyfloat option" where
  "round_double n ex =
     (let ulp = max (bitlen \<bar>n\<bar> + ex - 53) (- 1074);
          n' = (if ulp \<le> ex then n else round_half_even n (nat (ulp - ex)));
          ex' = (if ulp \<le> ex then ex else ulp)
      in if n' \<noteq> 0 \<and> 1024 < bitlen \<bar>n'\<bar> + ex' then None else Some (Finite n' ex'))"

text \<open>
  \<open>x ** 2\<close> on a float: the square, rounded to the nearest float (the power routine of
  the C library, taken as correctly rounded; it is exact where the square is a float);
  Python raises \<open>OverflowError\<close> when the result is out of range.
\<close>

definition float_pow2 :: "pyfloat \<Rightarrow> error + pyfloat" where
  "float_pow2 x = (case x of Finite mant ex \<Rightarrow>
     (case round_double (mant * mant) (2 * ex) of
        None \<Rightarrow> Inl OverflowError
      | Some v \<Rightarrow> Inr v))"

text \<open>\<open>x + y\<close> on two floats: the sum, rounded; out of range it is an infinity.\<close>

datatype extfloat = Fin pyfloat | PlusInf | MinusInf

definition float_add :: "pyfloat \<Rightarrow> pyfloat \<Rightarrow> extfloat" where
  "float_add x y = (case x of Finite m1 e1 \<Rightarrow> (case y of Finite m2 e2 \<Rightarrow>
     (let ex = min e1 e2; n = m1 * 2 ^ nat (e1 - ex) + m2 * 2 ^ nat (e2 - ex) in
      case round_double n ex of
        None \<Rightarrow> (if 0 < n then PlusInf else MinusInf)
      | Some v \<Rightarrow> Fin v)))"

text \<open>\<open>x < c\<close> for a float and an integer: Python compares the two numbers exactly.\<close>

fun float_less :: "extfloat \<Rightarrow> real \<Rightarrow> bool" where
  "float_less (Fin v) c = (fvalue v < c)"
| "float_less PlusInf c = False"
| "float_less MinusInf c = True"

text \<open>
  \<^verbatim>\<open>
  def circle(pos):
      x, y = pos
      return x**2 + y**2 < r**2
  \<close>
  on a pair of floats: \<open>x**2\<close> first, then \<open>y**2\<close>, the sum, and the comparison with
  the integer \<open>r**2\<close>.
\<close>

definition circle_float :: "pyfloat \<times> pyfloat \<Rightarrow> error + bool" where
  "circle_float p = (case p of (x, y) \<Rightarrow>
     (case float_pow2 x of
        Inl er \<Rightarrow> Inl er
      | Inr xx \<Rightarrow>
          (case float_pow2 y of
             Inl er \<Rightarrow> Inl er
           | Inr yy \<Rightarrow> Inr (float_less (float_add xx yy) (r\<^sup>2)))))"


subsection \<open>The builder of the lattice library\<close>

text \<open>
  \<^verbatim>\<open>
  lat = kwant.lattice.square(a=1)

  sys = kwant.Builder()
  sys[lat.shape(circle, (0,0))] = 4 * t
  sys[lat.neighbors()] = -t
  \<close>
  These statements are calls into the lattice library (kwant); what follows is the
  library's documented behaviour on the square lattice, as far as the statements use it.
  A site of \<open>lat\<close> is a pair of integers, and with \<open>a = 1\<close> its position is that pair.
\<close>

type_synonym square_site = "int \<times> int"

definition pos :: "square_site \<Rightarrow> real vec2" where
  "pos s = (real_of_int (fst s), real_of_int (snd s))"

text \<open>The same position as the pair of floats that a shape predicate receives.\<close>

definition pos_float :: "square_site \<Rightarrow> pyfloat \<times> pyfloat" where
  "pos_float s = (float_of_int (fst s), float_of_int (snd s))"

definition shift :: "square_site \<Rightarrow> square_site \<Rightarrow> square_site" where
  "shift s d = (fst s + fst d, snd s + snd d)"

text \<open>
  \<open>lat.shape(inside, start)\<close> selects sites by flood fill: the site at \<open>start\<close>, and every
  site reached from it through neighbouring sites whose positions satisfy \<open>inside\<close>. A
  start outside the shape raises \<open>ValueError\<close>. The fill steps to the four nearest
  lattice points here.
\<close>

inductive_set flood_fill :: "(real vec2 \<Rightarrow> bool) \<Rightarrow> square_site \<Rightarrow> square_site set"
  for inside :: "real vec2 \<Rightarrow> bool" and start :: square_site where
  start: "inside (pos start) \<Longrightarrow> start \<in> flood_fill inside start"
| step: "s \<in> flood_fill inside start \<Longrightarrow>
         s' \<in> {shift s (1, 0), shift s (- 1, 0), shift s (0, 1), shift s (0, - 1)} \<Longrightarrow>
         inside (pos s') \<Longrightarrow> s' \<in> flood_fill inside start"

definition shape :: "(real vec2 \<Rightarrow> bool) \<Rightarrow> square_site \<Rightarrow> error + square_site set" where
  "shape inside start =
     (if inside (pos start) then Inr (flood_fill inside start) else Inl ValueError)"

text \<open>
  \<open>lat.neighbors()\<close>: the nearest-neighbour hopping kinds of the square lattice, which
  are the displacements \<open>(1, 0)\<close> and \<open>(0, 1)\<close>.
\<close>

definition neighbors :: "square_site list" where
  "neighbors = [(1, 0), (0, 1)]"

text \<open>
  A builder holds a value for each of its sites and for each of its hoppings; a hopping
  is stored in one direction, from its second site to its first.
\<close>

record builder =
  site_value :: "square_site \<rightharpoonup> real"
  hopping_value :: "square_site \<times> square_site \<rightharpoonup> real"

definition Builder :: builder where
  "Builder = \<lparr>site_value = Map.empty, hopping_value = Map.empty\<rparr>"

text \<open>\<open>sys[sites] = value\<close>: every selected site enters the builder with that value.\<close>

definition set_sites :: "square_site set \<Rightarrow> real \<Rightarrow> builder \<Rightarrow> builder" where
  "set_sites sites v syst =
     syst\<lparr>site_value := (\<lambda>s. if s \<in> sites then Some v else site_value syst s)\<rparr>"

text \<open>
  \<open>sys[kinds] = value\<close>: for every kind \<open>d\<close> and every site \<open>s\<close> of the builder whose
  image \<open>s + d\<close> is a site of the builder too, the hopping from \<open>s\<close> to \<open>s + d\<close> gets the
  value.
\<close>

definition set_hoppings :: "square_site list \<Rightarrow> real \<Rightarrow> builder \<Rightarrow> builder" where
  "set_hoppings kinds v syst =
     syst\<lparr>hopping_value := (\<lambda>(i, j).
        if (\<exists>d \<in> set kinds. i = shift j d) \<and> site_value syst i \<noteq> None \<and> site_value syst j \<noteq> None
        then Some v else hopping_value syst (i, j))\<rparr>"

definition sys :: "error + builder" where
  "sys = (case shape circle (0, 0) of
            Inl e \<Rightarrow> Inl e
          | Inr sites \<Rightarrow> Inr (set_hoppings neighbors (- t) (set_sites sites (4 * t) Builder)))"

text \<open>
  \<open>sys.finalized().hamiltonian_submatrix()\<close>, entry by entry: the entry of two sites of
  the system is the site's value on the diagonal, the value of the hopping between the
  two sites, stored in either direction (the reverse direction carries the complex
  conjugate, which for a real value is the value), and zero where there is no hopping.
  There is no entry for a site outside the system.
\<close>

definition hamiltonian :: "builder \<Rightarrow> square_site \<Rightarrow> square_site \<Rightarrow> real option" where
  "hamiltonian syst i j =
     (case (site_value syst i, site_value syst j) of
        (Some vi, Some vj) \<Rightarrow>
          if i = j then Some vi
          else (case hopping_value syst (i, j) of
                  Some v \<Rightarrow> Some v
                | None \<Rightarrow> (case hopping_value syst (j, i) of
                             Some v \<Rightarrow> Some v
                           | None \<Rightarrow> Some 0))
      | _ \<Rightarrow> None)"

text \<open>Two sites are nearest neighbours when they differ by one step along one axis.\<close>

definition nearest_neighbours :: "square_site \<Rightarrow> square_site \<Rightarrow> bool" where
  "nearest_neighbours i j \<longleftrightarrow> \<bar>fst i - fst j\<bar> + \<bar>snd i - snd j\<bar> = 1"


section \<open>Notebook 3.4: graphene, Haldane and Kane-Mele models\<close>

subsection \<open>The lattice and the momentum transformation\<close>

text \<open>
  \<^verbatim>\<open>
  graphene = kwant.lattice.general([[1, 0], [1/2, np.sqrt(3)/2]],  # lattice vectors
                                   [[0, 0], [0, 1/np.sqrt(3)]])  # Coordinates of the sites
  a, b = graphene.sublattices
  \<close>
  The lattice object keeps the primitive vectors it was given (its rows) and the basis
  (the coordinates of the two sites of a unit cell); its two sublattices are the site
  families \<open>a\<close> and \<open>b\<close>.
\<close>

record lattice =
  prim_vecs :: "real mat2"
  basis :: "real mat2"

definition graphene :: lattice where
  "graphene = \<lparr>prim_vecs = ((1, 0), (1 / 2, sqrt 3 / 2)),
                basis = ((0, 0), (0, 1 / sqrt 3))\<rparr>"

datatype family = a | b

text \<open>A site is a family together with an integer tag; its position follows from both.\<close>

record site =
  family :: family
  tag :: "int \<times> int"

text \<open>
  \<^verbatim>\<open>
  def momentum_to_lattice(k):
      B = np.array(graphene.prim_vecs).T
      A = B.dot(np.linalg.inv(B.T.dot(B)))
      return np.linalg.solve(A, k)
  \<close>
  The function reads the global \<open>graphene\<close>; \<open>momentum_to_lattice_in\<close> is its body with
  the lattice object as an argument.
\<close>

definition momentum_to_lattice_in :: "lattice \<Rightarrow> real vec2 \<Rightarrow> error + real vec2" where
  "momentum_to_lattice_in lat k =
     (let B = transpose2 (prim_vecs lat) in
      case linalg_inv (dot (transpose2 B) B) of
        Inl e \<Rightarrow> Inl e
      | Inr G \<Rightarrow> (let A = dot B G in linalg_solve A k))"

definition momentum_to_lattice :: "real vec2 \<Rightarrow> error + real vec2" where
  "momentum_to_lattice k = momentum_to_lattice_in graphene k"

subsection \<open>Parameters and the Haldane callables\<close>

text \<open>
  The parameter record is \<open>SimpleNamespace(t_2=t_2, m=m)\<close>.
  \<^verbatim>\<open>
  def nnn_hopping(site1, site2, params):
      return 1j * params.t_2

  def onsite(site, params):
      return params.m * (1 if site.family == a else -1)
  \<close>
\<close>

record params =
  t_2 :: real
  m :: real

definition nnn_hopping :: "site \<Rightarrow> site \<Rightarrow> params \<Rightarrow> complex" where
  "nnn_hopping site1 site2 ps = \<i> * complex_of_real (t_2 ps)"

definition onsite_haldane :: "site \<Rightarrow> params \<Rightarrow> real" where
  "onsite_haldane s ps = m ps * (if family s = a then 1 else - 1)"

subsection \<open>Pauli matrices and the Kane-Mele callables\<close>

text \<open>
  \<^verbatim>\<open>
  s0 = np.identity(2)
  sx = np.array([[0, 1], [1, 0]])
  sy = np.array([[0, -1j], [1j, 0]])
  sz = np.diag([1, -1])

  def spin_orbit(site1, site2, params):
      return 1j * params.t_2 * sz

  def onsite(site, params):
      return s0 * params.m * (1 if site.family == a else -1)
  \<close>
  The second \<open>onsite\<close> replaces the first one in the notebook; here it is
  \<open>onsite_kane_mele\<close>. numpy promotes integer and float arrays to complex ones where
  they meet complex numbers, so all four matrices have complex entries here.
\<close>

definition s0 :: "complex mat2" where
  "s0 = ((1, 0), (0, 1))"

definition sx :: "complex mat2" where
  "sx = ((0, 1), (1, 0))"

definition sy :: "complex mat2" where
  "sy = ((0, - \<i>), (\<i>, 0))"

definition sz :: "complex mat2" where
  "sz = ((1, 0), (0, - 1))"

definition spin_orbit :: "site \<Rightarrow> site \<Rightarrow> params \<Rightarrow> complex mat2" where
  "spin_orbit site1 site2 ps = scalar_times (\<i> * complex_of_real (t_2 ps)) sz"

definition onsite_kane_mele :: "site \<Rightarrow> params \<Rightarrow> complex mat2" where
  "onsite_kane_mele s ps =
     times_scalar (times_scalar s0 (complex_of_real (m ps))) (if family s = a then 1 else - 1)"

subsection \<open>The band-structure loop\<close>

text \<open>
  \<open>np.linspace(start, stop, num)\<close>: \<open>num\<close> evenly spaced samples from \<open>start\<close> to
  \<open>stop\<close>, both included; a negative \<open>num\<close> raises \<open>ValueError\<close>.
\<close>

definition linspace :: "real \<Rightarrow> real \<Rightarrow> int \<Rightarrow> error + real list" where
  "linspace start stop num =
     (if num < 0 then Inl ValueError
      else if num = 1 then Inr [start]
      else Inr (map (\<lambda>i. if i = nat num - 1 then stop
                           else start + real i * ((stop - start) / real_of_int (num - 1)))
                    [0..<nat num]))"

text \<open>
  The positional arguments handed to \<open>hamiltonian_submatrix\<close>: parameter records and
  numbers.
\<close>

datatype arg = Namespace params | Number real

text \<open>
  A finalized system is used through its method \<open>hamiltonian_submatrix(args=...)\<close> only,
  which belongs to the lattice library: a system is that method, from the argument list
  to a matrix of some type \<open>'h\<close> or an exception. \<open>np.linalg.eigvalsh\<close> is the other
  library routine of the loop, from a matrix to its eigenvalues or an exception.
\<close>

type_synonym 'h system = "arg list \<Rightarrow> error + 'h"
type_synonym 'h eigensolver = "'h \<Rightarrow> error + real list"

text \<open>
  \<^verbatim>\<open>
  def dispersion_2D(syst, args=None, lim=1.5*np.pi, num_points=200):
      if args is None:
          args = []
      momenta = np.linspace(-lim, lim, num_points)
      energies = []
      for kx in momenta:
          for ky in momenta:
              lattice_k = momentum_to_lattice([kx, ky])
              h = syst.hamiltonian_submatrix(args=(list(args) + list(lattice_k)))
              energies.append(np.linalg.eigvalsh(h))
      ...
  \<close>
  The lines that follow reshape \<open>energies\<close> and plot it; \<open>dispersion_2D\<close> here is the
  function up to the list \<open>energies\<close> as the loops leave it, and \<open>dispersion_2D_call\<close>
  further down is the whole function, with the remaining lines. \<open>momentum_to_lattice\<close>
  is a global name looked up at each call; \<open>dispersion_2D_with\<close> is the body with that
  function as an argument. The parameter \<open>lim\<close> is \<open>limit\<close> here.
\<close>

definition loop_body ::
  "(real vec2 \<Rightarrow> error + real vec2) \<Rightarrow> 'h eigensolver \<Rightarrow> 'h system \<Rightarrow> arg list \<Rightarrow>
   real \<Rightarrow> real \<Rightarrow> error + real list" where
  "loop_body to_lattice eigvalsh syst args kx ky =
     (case to_lattice (kx, ky) of
        Inl e \<Rightarrow> Inl e
      | Inr lattice_k \<Rightarrow>
          (case syst (args @ [Number (fst lattice_k), Number (snd lattice_k)]) of
             Inl e \<Rightarrow> Inl e
           | Inr h \<Rightarrow> eigvalsh h))"

fun for_ky ::
  "(real vec2 \<Rightarrow> error + real vec2) \<Rightarrow> 'h eigensolver \<Rightarrow> 'h system \<Rightarrow> arg list \<Rightarrow>
   real \<Rightarrow> real list \<Rightarrow> real list list \<Rightarrow> error + real list list" where
  "for_ky to_lattice eigvalsh syst args kx [] energies = Inr energies"
| "for_ky to_lattice eigvalsh syst args kx (ky # kys) energies =
     (case loop_body to_lattice eigvalsh syst args kx ky of
        Inl e \<Rightarrow> Inl e
      | Inr ev \<Rightarrow> for_ky to_lattice eigvalsh syst args kx kys (energies @ [ev]))"

fun for_kx ::
  "(real vec2 \<Rightarrow> error + real vec2) \<Rightarrow> 'h eigensolver \<Rightarrow> 'h system \<Rightarrow> arg list \<Rightarrow>
   real list \<Rightarrow> real list \<Rightarrow> real list list \<Rightarrow> error + real list list" where
  "for_kx to_lattice eigvalsh syst args [] momenta energies = Inr energies"
| "for_kx to_lattice eigvalsh syst args (kx # kxs) momenta energies =
     (case for_ky to_lattice eigvalsh syst args kx momenta energies of
        Inl e \<Rightarrow> Inl e
      | Inr energies' \<Rightarrow> for_kx to_lattice eigvalsh syst args kxs momenta energies')"

definition dispersion_2D_with ::
  "(real vec2 \<Rightarrow> error + real vec2) \<Rightarrow> 'h eigensolver \<Rightarrow> 'h system \<Rightarrow> arg list option \<Rightarrow>
   real \<Rightarrow> int \<Rightarrow> error + real list list" where
  "dispersion_2D_with to_lattice eigvalsh syst args limit num_points =
     (let args = (case args of None \<Rightarrow> [] | Some xs \<Rightarrow> xs) in
      case linspace (- limit) limit num_points of
        Inl e \<Rightarrow> Inl e
      | Inr momenta \<Rightarrow> for_kx to_lattice eigvalsh syst args momenta momenta [])"

definition dispersion_2D ::
  "'h eigensolver \<Rightarrow> 'h system \<Rightarrow> arg list option \<Rightarrow> real \<Rightarrow> int \<Rightarrow> error + real list list" where
  "dispersion_2D eigvalsh syst args limit num_points =
     dispersion_2D_with momentum_to_lattice eigvalsh syst args limit num_points"

text \<open>
  The outcomes of a sequence of calls made one after the other: the first exception, or
  all the results.
\<close>

fun first_error_or_all :: "(error + 'x) list \<Rightarrow> error + 'x list" where
  "first_error_or_all [] = Inr []"
| "first_error_or_all (Inl e # xs) = Inl e"
| "first_error_or_all (Inr v # xs) =
     (case first_error_or_all xs of Inl e \<Rightarrow> Inl e | Inr vs \<Rightarrow> Inr (v # vs))"

text \<open>
  A one-band system to run the loop on: its 1x1 Hamiltonian is the sum of the numbers
  among its arguments, and the eigenvalue of a 1x1 matrix is its entry.
\<close>

fun sum_numbers :: "arg list \<Rightarrow> real" where
  "sum_numbers [] = 0"
| "sum_numbers (Number x # xs) = x + sum_numbers xs"
| "sum_numbers (Namespace ps # xs) = sum_numbers xs"

definition one_band_system :: "real system" where
  "one_band_system args = Inr (sum_numbers args)"

definition one_band_eigvalsh :: "real eigensolver" where
  "one_band_eigvalsh h = Inr [h]"




subsection \<open>Hopping kinds and builders on the graphene lattice\<close>

text \<open>
  \<^verbatim>\<open>
  nnn_hoppings_a = (((-1, 0), a, a), ((0, 1), a, a), ((1, -1), a, a))
  nnn_hoppings_b = (((1, 0), b, b), ((0, -1), b, b), ((-1, 1), b, b))
  nnn_hoppings = nnn_hoppings_a + nnn_hoppings_b
  \<close>
  Each triple gives the arguments of \<open>kwant.builder.HoppingKind(delta, family_a,
  family_b)\<close>: the hoppings from a site of \<open>family_b\<close> to the site of \<open>family_a\<close> whose tag
  is larger by \<open>delta\<close>.
\<close>

type_synonym hopping_kind = "(int \<times> int) \<times> family \<times> family"

definition nnn_hoppings_a :: "hopping_kind list" where
  "nnn_hoppings_a = [((- 1, 0), a, a), ((0, 1), a, a), ((1, - 1), a, a)]"

definition nnn_hoppings_b :: "hopping_kind list" where
  "nnn_hoppings_b = [((1, 0), b, b), ((0, - 1), b, b), ((- 1, 1), b, b)]"

definition nnn_hoppings :: "hopping_kind list" where
  "nnn_hoppings = nnn_hoppings_a @ nnn_hoppings_b"

definition kind_matches :: "hopping_kind \<Rightarrow> site \<Rightarrow> site \<Rightarrow> bool" where
  "kind_matches kind i j = (case kind of (delta, family_a, family_b) \<Rightarrow>
     family i = family_a \<and> family j = family_b \<and>
     tag i = (fst (tag j) + fst delta, snd (tag j) + snd delta))"

text \<open>
  The builder calls that \<open>add_hoppings\<close> makes, as routines of the lattice library
  that may raise: \<open>graphene.neighbors(1)\<close>, \<open>kwant.builder.HoppingKind(*hopping)\<close> and
  the item assignment \<open>syst[kinds] = value\<close>, which gives back the builder it changed.
  A value is a function of the two sites and the parameters; a constant ignores them.
\<close>

record ('b, 'v) builder_library =
  graphene_neighbors :: "error + hopping_kind list"
  HoppingKind :: "hopping_kind \<Rightarrow> error + hopping_kind"
  setitem_hoppings ::
    "'b \<Rightarrow> hopping_kind list \<Rightarrow> (site \<Rightarrow> site \<Rightarrow> params \<Rightarrow> 'v) \<Rightarrow> error + 'b"

text \<open>
  \<^verbatim>\<open>
  def add_hoppings(syst):
      syst[graphene.neighbors(1)] = 1
      syst[[kwant.builder.HoppingKind(*hopping) for hopping in nnn_hoppings]] = nnn_hopping
  \<close>
  in the Haldane cell, and
  \<^verbatim>\<open>
  def add_hoppings(syst):
      syst[graphene.neighbors(1)] = s0
      syst[[kwant.builder.HoppingKind(*hopping) for hopping in nnn_hoppings]] = spin_orbit
  \<close>
  in the Kane-Mele cell.
\<close>

definition add_hoppings_haldane :: "('b, complex) builder_library \<Rightarrow> 'b \<Rightarrow> error + 'b" where
  "add_hoppings_haldane lib syst =
     (case graphene_neighbors lib of
        Inl e \<Rightarrow> Inl e
      | Inr nearest \<Rightarrow>
          (case setitem_hoppings lib syst nearest (\<lambda>site1 site2 ps. 1) of
             Inl e \<Rightarrow> Inl e
           | Inr syst' \<Rightarrow>
               (case first_error_or_all (map (HoppingKind lib) nnn_hoppings) of
                  Inl e \<Rightarrow> Inl e
                | Inr kinds \<Rightarrow> setitem_hoppings lib syst' kinds nnn_hopping)))"

definition add_hoppings_kane_mele ::
  "('b, complex mat2) builder_library \<Rightarrow> 'b \<Rightarrow> error + 'b" where
  "add_hoppings_kane_mele lib syst =
     (case graphene_neighbors lib of
        Inl e \<Rightarrow> Inl e
      | Inr nearest \<Rightarrow>
          (case setitem_hoppings lib syst nearest (\<lambda>site1 site2 ps. s0) of
             Inl e \<Rightarrow> Inl e
           | Inr syst' \<Rightarrow>
               (case first_error_or_all (map (HoppingKind lib) nnn_hoppings) of
                  Inl e \<Rightarrow> Inl e
                | Inr kinds \<Rightarrow> setitem_hoppings lib syst' kinds spin_orbit)))"

text \<open>
  What the library does with these calls, from its documentation. A builder holds a
  value for each of its sites and for each of its hoppings; a hopping is stored in one
  direction, from its second site to its first. An item assignment with hopping kinds
  gives the value to every hopping of one of the kinds between two sites of the
  builder. The nearest neighbours of the graphene lattice are the three kinds from
  sublattice \<open>b\<close> to sublattice \<open>a\<close> below.
\<close>

record 'v graphene_builder =
  onsite_at :: "site \<rightharpoonup> (params \<Rightarrow> 'v)"
  hopping_at :: "site \<times> site \<rightharpoonup> (params \<Rightarrow> 'v)"

definition graphene_Builder :: "'v graphene_builder" where
  "graphene_Builder = \<lparr>onsite_at = Map.empty, hopping_at = Map.empty\<rparr>"

definition set_onsite ::
  "(site \<Rightarrow> bool) \<Rightarrow> (site \<Rightarrow> params \<Rightarrow> 'v) \<Rightarrow> 'v graphene_builder \<Rightarrow> 'v graphene_builder" where
  "set_onsite selected f syst =
     syst\<lparr>onsite_at := (\<lambda>i. if selected i then Some (f i) else onsite_at syst i)\<rparr>"

definition set_hopping_kinds ::
  "hopping_kind list \<Rightarrow> (site \<Rightarrow> site \<Rightarrow> params \<Rightarrow> 'v) \<Rightarrow> 'v graphene_builder \<Rightarrow>
   'v graphene_builder" where
  "set_hopping_kinds kinds f syst =
     syst\<lparr>hopping_at := (\<lambda>(i, j).
        if (\<exists>kind \<in> set kinds. kind_matches kind i j) \<and>
           onsite_at syst i \<noteq> None \<and> onsite_at syst j \<noteq> None
        then Some (f i j) else hopping_at syst (i, j))\<rparr>"

definition kwant :: "('v graphene_builder, 'v) builder_library" where
  "kwant = \<lparr>graphene_neighbors = Inr [((0, 0), a, b), ((0, 1), a, b), ((- 1, 1), a, b)],
            HoppingKind = Inr,
            setitem_hoppings = (\<lambda>syst kinds f. Inr (set_hopping_kinds kinds f syst))\<rparr>"

text \<open>
  \<^verbatim>\<open>
  haldane = kwant.Builder(kwant.TranslationalSymmetry(*graphene.prim_vecs))
  haldane[graphene.shape((lambda pos: True), (0, 0))] = onsite
  haldane[graphene.neighbors(1)] = 1
  haldane[[kwant.builder.HoppingKind(*hopping) for hopping in nnn_hoppings]] = nnn_hopping
  \<close>
  and
  \<^verbatim>\<open>
  bulk_kane_mele = kwant.Builder(kwant.TranslationalSymmetry(*graphene.prim_vecs))
  bulk_kane_mele[graphene.shape((lambda pos: True), (0, 0))] = onsite
  add_hoppings(bulk_kane_mele)
  \<close>
  The two hopping statements of the first cell are the body of its \<open>add_hoppings\<close>.
  With both translations as symmetries and a shape that holds everywhere, the sites
  are all the sites of the lattice; the ribbons \<open>zigzag_ribbon\<close> and \<open>zigzag_kane_mele\<close>
  are built by the same statements over the sites of a strip. The systems are given
  here for any selection of sites.
\<close>

definition haldane_system :: "(site \<Rightarrow> bool) \<Rightarrow> error + complex graphene_builder" where
  "haldane_system selected =
     add_hoppings_haldane kwant
       (set_onsite selected (\<lambda>i ps. complex_of_real (onsite_haldane i ps)) graphene_Builder)"

definition kane_mele_system :: "(site \<Rightarrow> bool) \<Rightarrow> error + complex mat2 graphene_builder" where
  "kane_mele_system selected =
     add_hoppings_kane_mele kwant (set_onsite selected onsite_kane_mele graphene_Builder)"

definition haldane :: "error + complex graphene_builder" where
  "haldane = haldane_system (\<lambda>i. True)"

definition bulk_kane_mele :: "error + complex mat2 graphene_builder" where
  "bulk_kane_mele = kane_mele_system (\<lambda>i. True)"

text \<open>
  The tight-binding Hamiltonian a builder stands for, block by block: the block of two
  sites of the system is the site's value on the diagonal, the value of the hopping
  between the two sites where one is stored, its adjoint where the reverse hopping is
  stored, and zero otherwise. \<open>adj\<close> and \<open>zero\<close> are the adjoint and the zero of the
  values: \<open>cnj\<close> and \<open>0\<close> for numbers, \<open>dagger\<close> and the zero matrix for 2x2 blocks.
\<close>

definition hamiltonian_block ::
  "('v \<Rightarrow> 'v) \<Rightarrow> 'v \<Rightarrow> 'v graphene_builder \<Rightarrow> params \<Rightarrow> site \<Rightarrow> site \<Rightarrow> 'v option" where
  "hamiltonian_block adj zero syst ps i j =
     (case (onsite_at syst i, onsite_at syst j) of
        (Some fi, Some fj) \<Rightarrow>
          if i = j then Some (fi ps)
          else (case hopping_at syst (i, j) of
                  Some f \<Rightarrow> Some (f ps)
                | None \<Rightarrow> (case hopping_at syst (j, i) of
                             Some f \<Rightarrow> Some (adj (f ps))
                           | None \<Rightarrow> Some zero))
      | _ \<Rightarrow> None)"

text \<open>The 2x2 block that carries two numbers on its diagonal.\<close>

definition spin_diagonal :: "complex \<Rightarrow> complex \<Rightarrow> complex mat2" where
  "spin_diagonal up down = ((up, 0), (0, down))"


subsection \<open>The calls after the loops, and the functions that plot\<close>














section \<open>The shape predicate of the quantum dot\<close>

text \<open>In exact arithmetic the predicate is the open disc of radius 15.\<close>

lemma circle_exact:
  "(circle (x, y) \<longleftrightarrow> x\<^sup>2 + y\<^sup>2 < 225) \<and>
   circle (- x, y) = circle (x, y) \<and>
   circle (x, - y) = circle (x, y) \<and>
   circle (y, x) = circle (x, y)"
  by (simp add: circle_def r_def add.commute)

lemma round_double_exact:
  assumes "\<bar>n\<bar> < 2 ^ 53"
  shows "round_double n 0 = Some (Finite n 0)"
proof -
  have b: "bitlen \<bar>n\<bar> \<le> 53"
    using assms by (simp add: bitlen_le_iff_power)
  then have "max (bitlen \<bar>n\<bar> + 0 - 53) (- 1074) \<le> 0"
    by simp
  moreover have "\<not> 1024 < bitlen \<bar>n\<bar> + 0"
    using b by simp
  ultimately show ?thesis
    by (simp add: round_double_def Let_def)
qed

lemma small_square:
  assumes "\<bar>x\<bar> < (2::int) ^ 26"
  shows "x * x < 2 ^ 52" and "0 \<le> x * x"
proof -
  have "\<bar>x\<bar> * \<bar>x\<bar> < 2 ^ 26 * 2 ^ 26"
    using assms by (intro mult_strict_mono) simp_all
  then show "x * x < 2 ^ 52"
    by simp
  show "0 \<le> x * x" by simp
qed

lemma float_pow2_int:
  assumes "\<bar>x\<bar> < 2 ^ 26"
  shows "float_pow2 (Finite x 0) = Inr (Finite (x * x) 0)"
proof -
  have "\<bar>x * x\<bar> < 2 ^ 53"
    using small_square [OF assms] by simp
  then show ?thesis
    by (simp add: float_pow2_def round_double_exact)
qed

lemma float_add_int:
  assumes "\<bar>p + q\<bar> < 2 ^ 53"
  shows "float_add (Finite p 0) (Finite q 0) = Fin (Finite (p + q) 0)"
  using assms by (simp add: float_add_def round_double_exact)

lemma circle_float_int:
  assumes "\<bar>x\<bar> < 2 ^ 26" and "\<bar>y\<bar> < 2 ^ 26"
  shows "circle_float (pos_float (x, y)) = Inr (x\<^sup>2 + y\<^sup>2 < 225)"
proof -
  have "\<bar>x * x + y * y\<bar> < 2 ^ 53"
    using small_square [OF assms(1)] small_square [OF assms(2)] by simp
  then have "float_add (Finite (x * x) 0) (Finite (y * y) 0) = Fin (Finite (x * x + y * y) 0)"
    by (rule float_add_int)
  moreover have "real_of_int (x * x + y * y) < 225 \<longleftrightarrow> x * x + y * y < 225"
    by linarith
  ultimately show ?thesis
    using assms
    by (simp add: circle_float_def pos_float_def float_of_int_def float_pow2_int fvalue_def
        r_def power2_eq_square)
qed

lemma circle_pos: "circle (pos (x, y)) \<longleftrightarrow> x\<^sup>2 + y\<^sup>2 < 225"
proof -
  have "circle (pos (x, y)) \<longleftrightarrow> (real_of_int x)\<^sup>2 + (real_of_int y)\<^sup>2 < 225"
    by (simp add: circle_def pos_def r_def)
  also have "\<dots> \<longleftrightarrow> real_of_int (x\<^sup>2 + y\<^sup>2) < real_of_int 225"
    by simp
  also have "\<dots> \<longleftrightarrow> x\<^sup>2 + y\<^sup>2 < 225"
    by (simp only: of_int_less_iff)
  finally show ?thesis .
qed

lemma float_pow2_fneg: "float_pow2 (fneg x) = float_pow2 x"
  by (cases x) (simp add: float_pow2_def fneg_def)

lemma float_add_commute: "float_add x y = float_add y x"
  by (cases x; cases y) (simp add: float_add_def min.commute add.commute)

lemma float_pow2_error: "float_pow2 x = Inl er \<Longrightarrow> er = OverflowError"
  by (cases x) (auto simp: float_pow2_def split: option.splits)

lemma circle_float_negate:
  "circle_float (fneg x, y) = circle_float (x, y)"
  "circle_float (x, fneg y) = circle_float (x, y)"
  by (simp_all add: circle_float_def float_pow2_fneg cong: sum.case_cong)

lemma circle_float_swap: "circle_float (y, x) = circle_float (x, y)"
proof (cases "float_pow2 x")
  case xl: (Inl ex)
  show ?thesis
  proof (cases "float_pow2 y")
    case (Inl ey)
    with xl show ?thesis
      using float_pow2_error [of x ex] float_pow2_error [of y ey]
      by (simp add: circle_float_def)
  next
    case (Inr yy)
    with xl show ?thesis by (simp add: circle_float_def)
  qed
next
  case xr: (Inr xx)
  show ?thesis
  proof (cases "float_pow2 y")
    case (Inl ey)
    with xr show ?thesis by (simp add: circle_float_def)
  next
    case (Inr yy)
    with xr show ?thesis by (simp add: circle_float_def float_add_commute)
  qed
qed

lemma fvalue_int_iff:
  "fvalue (Finite n ex) = real_of_int v \<longleftrightarrow>
     (if 0 \<le> ex then n * 2 ^ nat ex = v else n = v * 2 ^ nat (- ex))"
proof (cases "0 \<le> ex")
  case True
  have "real_of_int n * 2 ^ nat ex = real_of_int (n * 2 ^ nat ex)" by simp
  then show ?thesis using True by (simp only: fvalue_def pyfloat.case if_True of_int_eq_iff)
next
  case False
  have "real_of_int n / 2 ^ nat (- ex) = real_of_int v \<longleftrightarrow>
        real_of_int n = real_of_int (v * 2 ^ nat (- ex))"
    by (simp add: field_simps)
  then show ?thesis using False by (simp only: fvalue_def pyfloat.case if_False of_int_eq_iff)
qed

lemma bitlen_abs_scaled:
  assumes "v \<noteq> 0"
  shows "bitlen \<bar>v * 2 ^ k\<bar> = bitlen \<bar>v\<bar> + int k"
proof -
  have "\<bar>v * 2 ^ k\<bar> = \<bar>v\<bar> * 2 ^ k" by (simp add: abs_mult)
  moreover have "0 < \<bar>v\<bar>" using assms by simp
  ultimately show ?thesis by simp
qed

lemma top_bit:
  assumes "fvalue (Finite n ex) = real_of_int v" and "v \<noteq> 0"
  shows "bitlen \<bar>n\<bar> + ex = bitlen \<bar>v\<bar>"
proof (cases "0 \<le> ex")
  case True
  with assms have v: "v = n * 2 ^ nat ex" by (simp add: fvalue_int_iff)
  with assms(2) have "n \<noteq> 0" by auto
  then show ?thesis using True unfolding v by (simp add: bitlen_abs_scaled)
next
  case False
  with assms have n: "n = v * 2 ^ nat (- ex)" by (simp add: fvalue_int_iff)
  show ?thesis using False assms(2) unfolding n by (simp add: bitlen_abs_scaled)
qed

lemma round_half_even_multiple: "round_half_even (w * 2 ^ s) s = w"
  by (simp add: round_half_even_def Let_def)

lemma round_double_exact_value:
  assumes val: "fvalue (Finite n ex) = real_of_int v" and small: "\<bar>v\<bar> < 2 ^ 53"
  shows "\<exists>w. round_double n ex = Some w \<and> fvalue w = real_of_int v"
proof (cases "v = 0")
  case True
  with val have "fvalue (Finite n ex) = real_of_int 0" by simp
  then have "if 0 \<le> ex then n * 2 ^ nat ex = 0 else n = 0 * 2 ^ nat (- ex)"
    by (simp only: fvalue_int_iff)
  then have n: "n = 0" by (auto split: if_splits)
  show ?thesis
    unfolding n True round_double_def
    by (simp add: Let_def round_half_even_def fvalue_def)
next
  case False
  have b: "bitlen \<bar>v\<bar> \<le> 53"
    using small by (simp add: bitlen_le_iff_power)
  have top: "bitlen \<bar>n\<bar> + ex = bitlen \<bar>v\<bar>"
    using val False by (rule top_bit)
  define ulp where "ulp = max (bitlen \<bar>n\<bar> + ex - 53) (- 1074)"
  have ulp0: "ulp \<le> 0" unfolding ulp_def using b top by simp
  show ?thesis
  proof (cases "ulp \<le> ex")
    case True
    then have "round_double n ex = Some (Finite n ex)"
      using b top by (simp add: round_double_def Let_def ulp_def)
    with val show ?thesis by simp
  next
    case ex: False
    then have neg: "ex < 0" using ulp0 by simp
    with val have n: "n = v * 2 ^ nat (- ex)" by (simp add: fvalue_int_iff)
    have split: "nat (- ex) = nat (- ulp) + nat (ulp - ex)"
      using ex ulp0 by simp
    have n': "n = (v * 2 ^ nat (- ulp)) * 2 ^ nat (ulp - ex)"
      unfolding n split by (simp add: power_add)
    have rhe: "round_half_even n (nat (ulp - ex)) = v * 2 ^ nat (- ulp)"
      by (subst n') (rule round_half_even_multiple)
    have bl: "bitlen \<bar>v * 2 ^ nat (- ulp)\<bar> + ulp = bitlen \<bar>v\<bar>"
      using False ulp0 by (simp add: bitlen_abs_scaled)
    have "round_double n ex = Some (Finite (v * 2 ^ nat (- ulp)) ulp)"
      using ex b bl rhe by (simp add: round_double_def Let_def ulp_def [symmetric])
    moreover have "fvalue (Finite (v * 2 ^ nat (- ulp)) ulp) = real_of_int v"
      using ulp0 by (simp add: fvalue_int_iff)
    ultimately show ?thesis by blast
  qed
qed

lemma float_pow2_exact_value:
  assumes "fvalue x = real_of_int v" and "\<bar>v\<bar> < 2 ^ 26"
  shows "\<exists>w. float_pow2 x = Inr w \<and> fvalue w = real_of_int (v * v)"
proof -
  obtain n ex where x: "x = Finite n ex" by (cases x)
  have sq: "fvalue (Finite (n * n) (2 * ex)) = real_of_int (v * v)"
  proof (cases "0 \<le> ex")
    case True
    with assms(1) have v: "v = n * 2 ^ nat ex" by (simp add: x fvalue_int_iff)
    have "v * v = n * n * (2 ^ nat ex * 2 ^ nat ex)" unfolding v by (simp add: algebra_simps)
    also have "2 ^ nat ex * 2 ^ nat ex = (2::int) ^ nat (2 * ex)"
      using True by (simp add: power_add [symmetric] nat_add_distrib)
    finally have "n * n * 2 ^ nat (2 * ex) = v * v" by simp
    moreover have "0 \<le> 2 * ex" using True by simp
    ultimately show ?thesis by (simp only: fvalue_int_iff if_True)
  next
    case False
    with assms(1) have n: "n = v * 2 ^ nat (- ex)" by (simp add: x fvalue_int_iff)
    have "n * n = v * v * (2 ^ nat (- ex) * 2 ^ nat (- ex))" unfolding n by (simp add: algebra_simps)
    also have "2 ^ nat (- ex) * 2 ^ nat (- ex) = (2::int) ^ nat (- (2 * ex))"
      using False by (simp add: power_add [symmetric] nat_add_distrib)
    finally have "n * n = v * v * 2 ^ nat (- (2 * ex))" by simp
    moreover have "\<not> 0 \<le> 2 * ex" using False by simp
    ultimately show ?thesis by (simp only: fvalue_int_iff if_False)
  qed
  have "\<bar>v\<bar> * \<bar>v\<bar> < 2 ^ 26 * 2 ^ 26"
    using assms(2) by (intro mult_strict_mono) simp_all
  then have "\<bar>v * v\<bar> < 2 ^ 53" by (simp add: abs_mult)
  from round_double_exact_value [OF sq this]
  show ?thesis by (auto simp: float_pow2_def x)
qed

lemma float_add_exact_value:
  assumes "fvalue x = real_of_int v" and "fvalue y = real_of_int w" and "\<bar>v + w\<bar> < 2 ^ 53"
  shows "\<exists>z. float_add x y = Fin z \<and> fvalue z = real_of_int (v + w)"
proof -
  obtain m1 e1 where x: "x = Finite m1 e1" by (cases x)
  obtain m2 e2 where y: "y = Finite m2 e2" by (cases y)
  define ex where "ex = min e1 e2"
  define n where "n = m1 * 2 ^ nat (e1 - ex) + m2 * 2 ^ nat (e2 - ex)"
  have scale: "fvalue (Finite (mm * 2 ^ nat (ee - ex)) ex) = fvalue (Finite mm ee)"
    if "ex \<le> ee" for mm ee
  proof -
    have "real_of_int (mm * 2 ^ nat (ee - ex)) * 2 powr real_of_int ex
        = real_of_int mm * 2 powr real_of_int ee"
    proof -
      have "(2::real) ^ nat (ee - ex) = 2 powr real_of_int (ee - ex)"
        using that by (simp add: powr_realpow [symmetric])
      then have "real_of_int (mm * 2 ^ nat (ee - ex)) * 2 powr real_of_int ex
          = real_of_int mm * (2 powr real_of_int (ee - ex) * 2 powr real_of_int ex)"
        by simp
      also have "2 powr real_of_int (ee - ex) * 2 powr real_of_int ex = 2 powr real_of_int ee"
        by (simp add: powr_add [symmetric])
      finally show ?thesis .
    qed
    moreover have "fvalue (Finite k d) = real_of_int k * 2 powr real_of_int d" for k d
      by (cases "0 \<le> d")
        (simp_all add: fvalue_def powr_realpow [symmetric] powr_minus divide_inverse)
    ultimately show ?thesis by simp
  qed
  have lin: "fvalue (Finite (k1 + k2) d) = fvalue (Finite k1 d) + fvalue (Finite k2 d)" for k1 k2 d
    by (simp add: fvalue_def add_divide_distrib algebra_simps)
  have le: "ex \<le> e1" "ex \<le> e2"
    by (simp_all add: ex_def)
  have "fvalue (Finite n ex) = fvalue (Finite m1 e1) + fvalue (Finite m2 e2)"
    unfolding n_def lin by (simp only: scale [OF le(1)] scale [OF le(2)])
  then have "fvalue (Finite n ex) = real_of_int (v + w)"
    using assms(1,2) by (simp add: x y)
  from round_double_exact_value [OF this assms(3)]
  show ?thesis
    by (auto simp: float_add_def x y Let_def ex_def [symmetric] n_def [symmetric])
qed

lemma circle_float_integer_values:
  assumes "fvalue p = real_of_int x" and "fvalue q = real_of_int y"
    and "\<bar>x\<bar> < 2 ^ 26" and "\<bar>y\<bar> < 2 ^ 26"
  shows "circle_float (p, q) = Inr (x\<^sup>2 + y\<^sup>2 < 225)"
proof -
  obtain xx where xx: "float_pow2 p = Inr xx" "fvalue xx = real_of_int (x * x)"
    using float_pow2_exact_value [OF assms(1,3)] by blast
  obtain yy where yy: "float_pow2 q = Inr yy" "fvalue yy = real_of_int (y * y)"
    using float_pow2_exact_value [OF assms(2,4)] by blast
  have "\<bar>x * x + y * y\<bar> < 2 ^ 53"
    using small_square [OF assms(3)] small_square [OF assms(4)] by simp
  from float_add_exact_value [OF xx(2) yy(2) this]
  obtain z where z: "float_add xx yy = Fin z" "fvalue z = real_of_int (x * x + y * y)"
    by blast
  have "real_of_int (x * x + y * y) < 225 \<longleftrightarrow> x * x + y * y < 225"
    by linarith
  then show ?thesis
    by (simp add: circle_float_def xx(1) yy(1) z r_def power2_eq_square)
qed

lemma rounded_inputs:
  "is_double (Finite 701192469323707 (- 46))"
  "is_double (Finite 788970947703757 (- 46))"
  "is_double (Finite 2941796710330669 613)"
  "is_double (Finite 0 0)"
  by (code_simp+)

lemma rounded_outside:
  "circle_float (Finite 701192469323707 (- 46), Finite 788970947703757 (- 46)) = Inr False"
  by code_simp

lemma exactly_inside:
  "(fvalue (Finite 701192469323707 (- 46)))\<^sup>2 + (fvalue (Finite 788970947703757 (- 46)))\<^sup>2 < 225"
  by (simp add: fvalue_def power2_eq_square)

lemma square_overflows:
  "circle_float (Finite 2941796710330669 613, Finite 0 0) = Inl OverflowError"
  by code_simp

text \<open>
  C6, as stated: for every position the predicate would return the truth of
  \<open>x\<^sup>2 + y\<^sup>2 < 225\<close>. On floats it does not. The first two floats below are
  9.964544308952938 and 11.211951512333329: their squares add up to less than 225, but
  the rounded squares add up to 225.0 after rounding, and the predicate is false. The
  third float is 1e200, whose square is out of range: the call raises and returns
  nothing.
\<close>

theorem circle_float_counterexample:
  "is_double (Finite 701192469323707 (- 46)) \<and>
   is_double (Finite 788970947703757 (- 46)) \<and>
   (fvalue (Finite 701192469323707 (- 46)))\<^sup>2 + (fvalue (Finite 788970947703757 (- 46)))\<^sup>2 < 225 \<and>
   circle_float (Finite 701192469323707 (- 46), Finite 788970947703757 (- 46)) = Inr False \<and>
   is_double (Finite 2941796710330669 613) \<and>
   is_double (Finite 0 0) \<and>
   circle_float (Finite 2941796710330669 613, Finite 0 0) = Inl OverflowError"
  by (intro conjI rounded_inputs rounded_outside exactly_inside square_overflows)

text \<open>
  C6, amended. On the positions of the square lattice the arithmetic is exact: for
  every pair of floats whose values are integers \<open>x\<close> and \<open>y\<close> below \<open>2 ^ 26\<close> in
  magnitude, however the floats are written, the predicate returns the truth of
  \<open>x\<^sup>2 + y\<^sup>2 < 225\<close>, which is the exact predicate \<open>circle\<close> at that position; the
  inequality is strict, so a lattice point on the circle of radius 15 is outside. For
  every pair of floats the outcome of the predicate, its value or its exception, does
  not change when a coordinate is negated or the two are swapped.
\<close>

theorem circle_float_spec:
  "(fvalue p = real_of_int x \<and> fvalue q = real_of_int y \<and> \<bar>x\<bar> < 2 ^ 26 \<and> \<bar>y\<bar> < 2 ^ 26 \<longrightarrow>
      circle_float (p, q) = Inr (x\<^sup>2 + y\<^sup>2 < 225) \<and>
      circle_float (p, q) = Inr (circle (pos (x, y))) \<and>
      (x\<^sup>2 + y\<^sup>2 = 225 \<longrightarrow> circle_float (p, q) = Inr False)) \<and>
   (\<bar>x\<bar> < 2 ^ 26 \<and> \<bar>y\<bar> < 2 ^ 26 \<longrightarrow>
      circle_float (pos_float (x, y)) = Inr (circle (pos (x, y)))) \<and>
   circle_float (fneg p, q) = circle_float (p, q) \<and>
   circle_float (p, fneg q) = circle_float (p, q) \<and>
   circle_float (q, p) = circle_float (p, q)"
  using circle_float_integer_values [of p x q y] circle_float_int [of x y] circle_pos [of x y]
    circle_float_negate [of p q] circle_float_swap [of p q]
  by simp

theorem circle_float_spec_witness:
  "fvalue (Finite 5066549580791808 (- 49)) = real_of_int 9 \<and>
   fvalue (Finite 3 2) = real_of_int 12 \<and>
   \<bar>9::int\<bar> < 2 ^ 26 \<and> \<bar>12::int\<bar> < 2 ^ 26 \<and> (9::int)\<^sup>2 + 12\<^sup>2 = 225 \<and>
   circle_float (Finite 5066549580791808 (- 49), Finite 3 2) = Inr False \<and>
   circle_float (pos_float (9, 12)) = Inr False \<and>
   circle_float (pos_float (14, 5)) = Inr True \<and>
   circle_float (Finite 3 2, Finite 5066549580791808 (- 49))
     = circle_float (Finite 5066549580791808 (- 49), Finite 3 2)"
proof -
  have nine: "fvalue (Finite 5066549580791808 (- 49)) = real_of_int 9"
    and twelve: "fvalue (Finite 3 2) = real_of_int 12"
    by (simp_all add: fvalue_def)
  have small: "\<bar>9::int\<bar> < 2 ^ 26 \<and> \<bar>12::int\<bar> < 2 ^ 26" "\<bar>14::int\<bar> < 2 ^ 26 \<and> \<bar>5::int\<bar> < 2 ^ 26"
    by simp_all
  have boundary: "(9::int)\<^sup>2 + 12\<^sup>2 = 225"
    by simp
  have "circle_float (Finite 5066549580791808 (- 49), Finite 3 2) = Inr False"
    using circle_float_spec [of "Finite 5066549580791808 (- 49)" 9 "Finite 3 2" 12]
      nine twelve small(1) boundary by blast
  moreover have "circle_float (pos_float (9, 12)) = Inr (circle (pos (9, 12)))"
    using circle_float_spec [of _ 9 _ 12] small(1) by blast
  moreover have "circle_float (pos_float (14, 5)) = Inr (circle (pos (14, 5)))"
    using circle_float_spec [of _ 14 _ 5] small(2) by blast
  moreover have "circle_float (Finite 3 2, Finite 5066549580791808 (- 49))
      = circle_float (Finite 5066549580791808 (- 49), Finite 3 2)"
    using circle_float_spec [of "Finite 5066549580791808 (- 49)" 0 "Finite 3 2" 0]
    by (elim conjE)
  ultimately show ?thesis
    using nine twelve small(1) boundary by (simp add: circle_pos)
qed


section \<open>The onsite callables\<close>

text \<open>
  C4. The onsite energy depends on the family of the site and on the mass only. The
  Haldane callable returns \<open>m\<close> on sublattice \<open>a\<close> and \<open>- m\<close> otherwise; the Kane-Mele
  callable returns \<open>m\<close> times the 2x2 identity on sublattice \<open>a\<close> and \<open>- m\<close> times the
  identity otherwise; moving the site to another tag changes neither.
\<close>

theorem onsite_spec:
  "onsite_haldane s ps = (if family s = a then m ps else - m ps) \<and>
   onsite_kane_mele s ps =
     (if family s = a then ((complex_of_real (m ps), 0), (0, complex_of_real (m ps)))
      else ((- complex_of_real (m ps), 0), (0, - complex_of_real (m ps)))) \<and>
   onsite_haldane (s\<lparr>tag := tg\<rparr>) ps = onsite_haldane s ps \<and>
   onsite_kane_mele (s\<lparr>tag := tg\<rparr>) ps = onsite_kane_mele s ps"
  by (simp add: onsite_haldane_def onsite_kane_mele_def times_scalar_def s0_def)


section \<open>The momentum transformation\<close>

lemma momentum_to_lattice_value:
  "momentum_to_lattice (kx, ky) = Inr (kx, kx / 2 + sqrt 3 / 2 * ky)"
  unfolding momentum_to_lattice_def momentum_to_lattice_in_def graphene_def
  apply (simp add: transpose2_def dot_def linalg_inv_def linalg_solve_def det2_def Let_def)
  apply (simp add: field_simps)
  done






section \<open>Spin conservation in the Kane-Mele Hamiltonian\<close>

text \<open>
  The matrices that commute with \<open>sz\<close> are the diagonal ones, and they are closed under
  the operations that assemble a Hamiltonian from the values of its sites and hoppings:
  sums, multiples by a phase factor, and conjugate transposes.
\<close>

lemma commutes_with_sz_iff:
  "dot M sz = dot sz M \<longleftrightarrow> snd (fst M) = 0 \<and> fst (snd M) = 0"
proof -
  obtain p q u v where M: "M = ((p, q), (u, v))" by (cases M) auto
  show ?thesis by (simp add: M dot_def sz_def)
qed

lemma commutant_of_sz_closed:
  assumes "dot M sz = dot sz M" and "dot N sz = dot sz N"
  shows "dot (plus2 M N) sz = dot sz (plus2 M N)"
    and "dot (scalar_times c M) sz = dot sz (scalar_times c M)"
    and "dot (dagger M) sz = dot sz (dagger M)"
proof -
  obtain p q u v where M: "M = ((p, q), (u, v))" by (cases M) auto
  obtain p' q' u' v' where N: "N = ((p', q'), (u', v'))" by (cases N) auto
  from assms have z: "q = 0" "u = 0" "q' = 0" "u' = 0"
    by (simp_all add: commutes_with_sz_iff M N)
  show "dot (plus2 M N) sz = dot sz (plus2 M N)"
    by (simp add: commutes_with_sz_iff M N z plus2_def)
  show "dot (scalar_times c M) sz = dot sz (scalar_times c M)"
    by (simp add: commutes_with_sz_iff M z scalar_times_def)
  show "dot (dagger M) sz = dot sz (dagger M)"
    by (simp add: commutes_with_sz_iff M z dagger_def)
qed

lemma first_error_or_all_map_Inr: "first_error_or_all (map Inr vs) = Inr vs"
  by (induction vs) simp_all

lemma add_hoppings_kane_mele_kwant:
  "add_hoppings_kane_mele kwant syst
     = Inr (set_hopping_kinds nnn_hoppings spin_orbit
             (set_hopping_kinds [((0, 0), a, b), ((0, 1), a, b), ((- 1, 1), a, b)]
                (\<lambda>site1 site2 ps. s0) syst))"
  by (simp add: add_hoppings_kane_mele_def kwant_def first_error_or_all_map_Inr)

lemma add_hoppings_haldane_kwant:
  "add_hoppings_haldane kwant syst
     = Inr (set_hopping_kinds nnn_hoppings nnn_hopping
             (set_hopping_kinds [((0, 0), a, b), ((0, 1), a, b), ((- 1, 1), a, b)]
                (\<lambda>site1 site2 ps. 1) syst))"
  by (simp add: add_hoppings_haldane_def kwant_def first_error_or_all_map_Inr)

lemma onsite_at_built:
  "onsite_at (set_hopping_kinds ks2 f2 (set_hopping_kinds ks1 f1 (set_onsite sel f0 graphene_Builder))) i
     = (if sel i then Some (f0 i) else None)"
  by (simp add: set_hopping_kinds_def set_onsite_def graphene_Builder_def)

lemma hopping_at_built:
  "hopping_at (set_hopping_kinds ks2 f2 (set_hopping_kinds ks1 f1 (set_onsite sel f0 graphene_Builder))) (i, j)
     = (if sel i \<and> sel j
        then (if \<exists>kind \<in> set ks2. kind_matches kind i j then Some (f2 i j)
              else if \<exists>kind \<in> set ks1. kind_matches kind i j then Some (f1 i j)
              else None)
        else None)"
  by (simp add: set_hopping_kinds_def set_onsite_def graphene_Builder_def)

lemma hamiltonian_block_built:
  "hamiltonian_block adj zero
     (set_hopping_kinds ks2 f2 (set_hopping_kinds ks1 f1 (set_onsite sel f0 graphene_Builder))) ps i j
   = (if sel i \<and> sel j
      then Some (if i = j then f0 i ps
                 else if \<exists>kind \<in> set ks2. kind_matches kind i j then f2 i j ps
                 else if \<exists>kind \<in> set ks1. kind_matches kind i j then f1 i j ps
                 else if \<exists>kind \<in> set ks2. kind_matches kind j i then adj (f2 j i ps)
                 else if \<exists>kind \<in> set ks1. kind_matches kind j i then adj (f1 j i ps)
                 else zero)
      else None)"
  unfolding hamiltonian_block_def onsite_at_built hopping_at_built
  by simp

lemma kane_mele_system_value:
  "kane_mele_system sel
     = Inr (set_hopping_kinds nnn_hoppings spin_orbit
             (set_hopping_kinds [((0, 0), a, b), ((0, 1), a, b), ((- 1, 1), a, b)]
                (\<lambda>site1 site2 ps. s0) (set_onsite sel onsite_kane_mele graphene_Builder)))"
  by (simp add: kane_mele_system_def add_hoppings_kane_mele_kwant)

lemma haldane_system_value:
  "haldane_system sel
     = Inr (set_hopping_kinds nnn_hoppings nnn_hopping
             (set_hopping_kinds [((0, 0), a, b), ((0, 1), a, b), ((- 1, 1), a, b)]
                (\<lambda>site1 site2 ps. 1)
                (set_onsite sel (\<lambda>i ps. complex_of_real (onsite_haldane i ps)) graphene_Builder)))"
  by (simp add: haldane_system_def add_hoppings_haldane_kwant)

lemma kane_mele_values_diagonal:
  "onsite_kane_mele i ps
     = spin_diagonal (complex_of_real (onsite_haldane i ps))
         (complex_of_real (onsite_haldane i (ps\<lparr>t_2 := - t_2 ps\<rparr>)))"
  "s0 = spin_diagonal 1 1"
  "spin_orbit i j ps = spin_diagonal (nnn_hopping i j ps) (nnn_hopping i j (ps\<lparr>t_2 := - t_2 ps\<rparr>))"
  "dagger (spin_diagonal up down) = spin_diagonal (cnj up) (cnj down)"
  "((0, 0), (0, 0)) = spin_diagonal 0 0"
  by (simp_all add: onsite_kane_mele_def onsite_haldane_def spin_orbit_def nnn_hopping_def
      s0_def sz_def dagger_def scalar_times_def times_scalar_def spin_diagonal_def)

lemma spin_diagonal_commutes: "dot (spin_diagonal up down) sz = dot sz (spin_diagonal up down)"
  by (simp add: spin_diagonal_def dot_def sz_def)

lemma kane_mele_block_eq:
  "hamiltonian_block dagger ((0, 0), (0, 0))
     (set_hopping_kinds nnn_hoppings spin_orbit
       (set_hopping_kinds nearest (\<lambda>site1 site2 ps. s0)
         (set_onsite sel onsite_kane_mele graphene_Builder))) ps i j
   = (case (hamiltonian_block cnj 0
              (set_hopping_kinds nnn_hoppings nnn_hopping
                (set_hopping_kinds nearest (\<lambda>site1 site2 ps. 1)
                  (set_onsite sel (\<lambda>i ps. complex_of_real (onsite_haldane i ps)) graphene_Builder)))
              ps i j,
            hamiltonian_block cnj 0
              (set_hopping_kinds nnn_hoppings nnn_hopping
                (set_hopping_kinds nearest (\<lambda>site1 site2 ps. 1)
                  (set_onsite sel (\<lambda>i ps. complex_of_real (onsite_haldane i ps)) graphene_Builder)))
              (ps\<lparr>t_2 := - t_2 ps\<rparr>) i j) of
        (Some up, Some down) \<Rightarrow> Some (spin_diagonal up down)
      | _ \<Rightarrow> None)"
  unfolding hamiltonian_block_built
  by (simp add: kane_mele_values_diagonal)

lemma kane_mele_block_commutes:
  "map_option (\<lambda>M. dot M sz)
     (hamiltonian_block dagger ((0, 0), (0, 0))
       (set_hopping_kinds nnn_hoppings spin_orbit
         (set_hopping_kinds nearest (\<lambda>site1 site2 ps. s0)
           (set_onsite sel onsite_kane_mele graphene_Builder))) ps i j)
   = map_option (\<lambda>M. dot sz M)
     (hamiltonian_block dagger ((0, 0), (0, 0))
       (set_hopping_kinds nnn_hoppings spin_orbit
         (set_hopping_kinds nearest (\<lambda>site1 site2 ps. s0)
           (set_onsite sel onsite_kane_mele graphene_Builder))) ps i j)"
  unfolding kane_mele_block_eq
  by (simp add: spin_diagonal_commutes split: option.splits)

text \<open>
  C7. For every selection of sites, every mass and every \<open>t_2\<close>: the Kane-Mele system
  and the Haldane system built by the notebook's statements exist, and every block of
  the Kane-Mele Hamiltonian is diagonal in spin, with the entry of the Haldane
  Hamiltonian at \<open>t_2\<close> for spin up and the entry of the Haldane Hamiltonian at \<open>- t_2\<close>
  for spin down; so every block commutes with \<open>sz\<close>, which is what the commutator of
  the Hamiltonian with \<open>sz\<close> on every site comes to. The same holds of the values the
  cells assign: the onsite matrix, the identity \<open>s0\<close> on nearest-neighbour hoppings,
  \<open>1j * t_2 * sz\<close> on next-nearest-neighbour hoppings, and their conjugate transposes,
  commute with \<open>sz\<close> and carry the Haldane values on their diagonals.
\<close>

theorem kane_mele_conserves_sz:
  "(\<exists>km hd.
      kane_mele_system selected = Inr km \<and> haldane_system selected = Inr hd \<and>
      (\<forall>ps i j.
         hamiltonian_block dagger ((0, 0), (0, 0)) km ps i j
           = (case (hamiltonian_block cnj 0 hd ps i j,
                    hamiltonian_block cnj 0 hd (ps\<lparr>t_2 := - t_2 ps\<rparr>) i j) of
                (Some up, Some down) \<Rightarrow> Some (spin_diagonal up down)
              | _ \<Rightarrow> None) \<and>
         map_option (\<lambda>M. dot M sz) (hamiltonian_block dagger ((0, 0), (0, 0)) km ps i j)
           = map_option (\<lambda>M. dot sz M) (hamiltonian_block dagger ((0, 0), (0, 0)) km ps i j))) \<and>
   dot (onsite_kane_mele s ps) sz = dot sz (onsite_kane_mele s ps) \<and>
   dot s0 sz = dot sz s0 \<and>
   dot (spin_orbit s1 s2 ps) sz = dot sz (spin_orbit s1 s2 ps) \<and>
   dot (dagger s0) sz = dot sz (dagger s0) \<and>
   dot (dagger (spin_orbit s1 s2 ps)) sz = dot sz (dagger (spin_orbit s1 s2 ps)) \<and>
   onsite_kane_mele s ps
     = ((complex_of_real (onsite_haldane s ps), 0), (0, complex_of_real (onsite_haldane s ps))) \<and>
   s0 = ((1, 0), (0, 1)) \<and>
   spin_orbit s1 s2 ps
     = ((nnn_hopping s1 s2 ps, 0), (0, nnn_hopping s1 s2 (ps\<lparr>t_2 := - t_2 ps\<rparr>)))"
proof (intro conjI)
  show "\<exists>km hd.
      kane_mele_system selected = Inr km \<and> haldane_system selected = Inr hd \<and>
      (\<forall>ps i j.
         hamiltonian_block dagger ((0, 0), (0, 0)) km ps i j
           = (case (hamiltonian_block cnj 0 hd ps i j,
                    hamiltonian_block cnj 0 hd (ps\<lparr>t_2 := - t_2 ps\<rparr>) i j) of
                (Some up, Some down) \<Rightarrow> Some (spin_diagonal up down)
              | _ \<Rightarrow> None) \<and>
         map_option (\<lambda>M. dot M sz) (hamiltonian_block dagger ((0, 0), (0, 0)) km ps i j)
           = map_option (\<lambda>M. dot sz M) (hamiltonian_block dagger ((0, 0), (0, 0)) km ps i j))"
  proof (intro exI conjI allI)
    show "kane_mele_system selected
        = Inr (set_hopping_kinds nnn_hoppings spin_orbit
             (set_hopping_kinds [((0, 0), a, b), ((0, 1), a, b), ((- 1, 1), a, b)]
                (\<lambda>site1 site2 ps. s0) (set_onsite selected onsite_kane_mele graphene_Builder)))"
      by (rule kane_mele_system_value)
    show "haldane_system selected
        = Inr (set_hopping_kinds nnn_hoppings nnn_hopping
             (set_hopping_kinds [((0, 0), a, b), ((0, 1), a, b), ((- 1, 1), a, b)]
                (\<lambda>site1 site2 ps. 1)
                (set_onsite selected (\<lambda>i ps. complex_of_real (onsite_haldane i ps))
                   graphene_Builder)))"
      by (rule haldane_system_value)
  qed (rule kane_mele_block_eq kane_mele_block_commutes)+
qed (simp_all add: onsite_kane_mele_def onsite_haldane_def spin_orbit_def nnn_hopping_def
      s0_def sz_def dot_def dagger_def scalar_times_def times_scalar_def)

theorem kane_mele_conserves_sz_witness:
  "\<exists>km. bulk_kane_mele = Inr km \<and>
     hamiltonian_block dagger ((0, 0), (0, 0)) km \<lparr>t_2 = 1, m = 2\<rparr>
        \<lparr>family = a, tag = (0, 0)\<rparr> \<lparr>family = a, tag = (0, 0)\<rparr> = Some ((2, 0), (0, 2)) \<and>
     hamiltonian_block dagger ((0, 0), (0, 0)) km \<lparr>t_2 = 1, m = 2\<rparr>
        \<lparr>family = a, tag = (0, 0)\<rparr> \<lparr>family = b, tag = (0, 0)\<rparr> = Some ((1, 0), (0, 1)) \<and>
     hamiltonian_block dagger ((0, 0), (0, 0)) km \<lparr>t_2 = 1, m = 2\<rparr>
        \<lparr>family = a, tag = (0, 1)\<rparr> \<lparr>family = a, tag = (0, 0)\<rparr> = Some ((\<i>, 0), (0, - \<i>)) \<and>
     hamiltonian_block dagger ((0, 0), (0, 0)) km \<lparr>t_2 = 1, m = 2\<rparr>
        \<lparr>family = a, tag = (0, 0)\<rparr> \<lparr>family = a, tag = (0, 1)\<rparr> = Some ((- \<i>, 0), (0, \<i>)) \<and>
     hamiltonian_block dagger ((0, 0), (0, 0)) km \<lparr>t_2 = 1, m = 2\<rparr>
        \<lparr>family = a, tag = (0, 0)\<rparr> \<lparr>family = b, tag = (5, 5)\<rparr> = Some ((0, 0), (0, 0))"
proof -
  have "\<exists>km hd.
      kane_mele_system (\<lambda>i. True) = Inr km \<and> haldane_system (\<lambda>i. True) = Inr hd \<and>
      (\<forall>ps i j.
         hamiltonian_block dagger ((0, 0), (0, 0)) km ps i j
           = (case (hamiltonian_block cnj 0 hd ps i j,
                    hamiltonian_block cnj 0 hd (ps\<lparr>t_2 := - t_2 ps\<rparr>) i j) of
                (Some up, Some down) \<Rightarrow> Some (spin_diagonal up down)
              | _ \<Rightarrow> None) \<and>
         map_option (\<lambda>M. dot M sz) (hamiltonian_block dagger ((0, 0), (0, 0)) km ps i j)
           = map_option (\<lambda>M. dot sz M) (hamiltonian_block dagger ((0, 0), (0, 0)) km ps i j))"
    by (rule kane_mele_conserves_sz [THEN conjunct1])
  then obtain km hd where km: "kane_mele_system (\<lambda>i. True) = Inr km"
    and hd: "haldane_system (\<lambda>i. True) = Inr hd"
    and both: "\<forall>ps i j.
         hamiltonian_block dagger ((0, 0), (0, 0)) km ps i j
           = (case (hamiltonian_block cnj 0 hd ps i j,
                    hamiltonian_block cnj 0 hd (ps\<lparr>t_2 := - t_2 ps\<rparr>) i j) of
                (Some up, Some down) \<Rightarrow> Some (spin_diagonal up down)
              | _ \<Rightarrow> None) \<and>
         map_option (\<lambda>M. dot M sz) (hamiltonian_block dagger ((0, 0), (0, 0)) km ps i j)
           = map_option (\<lambda>M. dot sz M) (hamiltonian_block dagger ((0, 0), (0, 0)) km ps i j)"
    by (elim exE conjE)
  have blocks: "hamiltonian_block dagger ((0, 0), (0, 0)) km ps i j
           = (case (hamiltonian_block cnj 0 hd ps i j,
                    hamiltonian_block cnj 0 hd (ps\<lparr>t_2 := - t_2 ps\<rparr>) i j) of
                (Some up, Some down) \<Rightarrow> Some (spin_diagonal up down)
              | _ \<Rightarrow> None)" for ps i j
    using both [rule_format, of ps i j] by (rule conjunct1)
  have hd_value: "hd = set_hopping_kinds nnn_hoppings nnn_hopping
             (set_hopping_kinds [((0, 0), a, b), ((0, 1), a, b), ((- 1, 1), a, b)]
                (\<lambda>site1 site2 ps. 1)
                (set_onsite (\<lambda>i. True) (\<lambda>i ps. complex_of_real (onsite_haldane i ps)) graphene_Builder))"
    using hd by (simp add: haldane_system_value)
  have "hamiltonian_block dagger ((0, 0), (0, 0)) km \<lparr>t_2 = 1, m = 2\<rparr>
        \<lparr>family = a, tag = (0, 0)\<rparr> \<lparr>family = a, tag = (0, 0)\<rparr> = Some ((2, 0), (0, 2))"
    and "hamiltonian_block dagger ((0, 0), (0, 0)) km \<lparr>t_2 = 1, m = 2\<rparr>
        \<lparr>family = a, tag = (0, 0)\<rparr> \<lparr>family = b, tag = (0, 0)\<rparr> = Some ((1, 0), (0, 1))"
    and "hamiltonian_block dagger ((0, 0), (0, 0)) km \<lparr>t_2 = 1, m = 2\<rparr>
        \<lparr>family = a, tag = (0, 1)\<rparr> \<lparr>family = a, tag = (0, 0)\<rparr> = Some ((\<i>, 0), (0, - \<i>))"
    and "hamiltonian_block dagger ((0, 0), (0, 0)) km \<lparr>t_2 = 1, m = 2\<rparr>
        \<lparr>family = a, tag = (0, 0)\<rparr> \<lparr>family = a, tag = (0, 1)\<rparr> = Some ((- \<i>, 0), (0, \<i>))"
    and "hamiltonian_block dagger ((0, 0), (0, 0)) km \<lparr>t_2 = 1, m = 2\<rparr>
        \<lparr>family = a, tag = (0, 0)\<rparr> \<lparr>family = b, tag = (5, 5)\<rparr> = Some ((0, 0), (0, 0))"
    unfolding blocks hd_value hamiltonian_block_built
    by (simp_all add: nnn_hoppings_def nnn_hoppings_a_def nnn_hoppings_b_def kind_matches_def
        onsite_haldane_def nnn_hopping_def spin_diagonal_def)
  with km show ?thesis
    unfolding bulk_kane_mele_def by blast
qed


section \<open>Hermiticity of the values\<close>

text \<open>
  The onsite values of both models are Hermitian; the next-nearest-neighbour values
  are anti-Hermitian, so a hopping and its reverse carry opposite values.
\<close>

lemma onsite_values_hermitian:
  "dagger (onsite_kane_mele s ps) = onsite_kane_mele s ps"
  "cnj (complex_of_real (onsite_haldane s ps)) = complex_of_real (onsite_haldane s ps)"
  by (simp_all add: onsite_kane_mele_def dagger_def times_scalar_def s0_def)

lemma nnn_values_anti_hermitian:
  "cnj (nnn_hopping s1 s2 ps) = - nnn_hopping s1 s2 ps"
  "dagger (spin_orbit s1 s2 ps) = scalar_times (- 1) (spin_orbit s1 s2 ps)"
  by (simp_all add: nnn_hopping_def spin_orbit_def dagger_def scalar_times_def sz_def)

section \<open>What the band-structure loop computes\<close>

lemma first_error_or_all_append:
  "first_error_or_all (xs @ ys) =
     (case first_error_or_all xs of
        Inl e \<Rightarrow> Inl e
      | Inr vs \<Rightarrow> (case first_error_or_all ys of Inl e \<Rightarrow> Inl e | Inr ws \<Rightarrow> Inr (vs @ ws)))"
proof (induction xs rule: first_error_or_all.induct)
  case 1
  show ?case by (simp split: sum.splits)
next
  case (2 e xs)
  show ?case by simp
next
  case (3 v xs)
  then show ?case by (simp split: sum.splits)
qed

lemma for_ky_eq:
  "for_ky f eig syst args kx kys acc =
     (case first_error_or_all (map (loop_body f eig syst args kx) kys) of
        Inl e \<Rightarrow> Inl e
      | Inr vs \<Rightarrow> Inr (acc @ vs))"
proof (induction kys arbitrary: acc)
  case Nil
  show ?case by simp
next
  case (Cons ky kys)
  show ?case
  proof (cases "loop_body f eig syst args kx ky")
    case (Inl e)
    then show ?thesis by simp
  next
    case (Inr ev)
    then show ?thesis by (simp add: Cons.IH split: sum.splits)
  qed
qed

lemma for_kx_eq:
  "for_kx f eig syst args kxs momenta acc =
     (case first_error_or_all
             (map (\<lambda>(kx, ky). loop_body f eig syst args kx ky) (List.product kxs momenta)) of
        Inl e \<Rightarrow> Inl e
      | Inr vs \<Rightarrow> Inr (acc @ vs))"
proof (induction kxs arbitrary: acc)
  case Nil
  show ?case by simp
next
  case (Cons kx kxs)
  have row: "map (\<lambda>(kx, ky). loop_body f eig syst args kx ky) (map (Pair kx) momenta)
           = map (loop_body f eig syst args kx) momenta"
    by simp
  show ?case
    by (simp add: for_ky_eq Cons.IH first_error_or_all_append row o_def split: sum.splits)
qed

lemma dispersion_2D_with_eq:
  "dispersion_2D_with f eig syst args limit n =
     (case linspace (- limit) limit n of
        Inl e \<Rightarrow> Inl e
      | Inr momenta \<Rightarrow>
          first_error_or_all
            (map (\<lambda>(kx, ky). loop_body f eig syst (case args of None \<Rightarrow> [] | Some xs \<Rightarrow> xs) kx ky)
                 (List.product momenta momenta)))"
  by (simp add: dispersion_2D_with_def for_kx_eq split: sum.splits)

lemma loop_body_momentum_to_lattice:
  "loop_body momentum_to_lattice eig syst args kx ky =
     (case syst (args @ [Number kx, Number (kx / 2 + sqrt 3 / 2 * ky)]) of
        Inl e \<Rightarrow> Inl e
      | Inr h \<Rightarrow> eig h)"
  by (simp add: loop_body_def momentum_to_lattice_value)

lemma linspace_two: "linspace (- 1) 1 2 = Inr [- 1, 1]"
  by (simp add: linspace_def upt_rec)

lemma one_band_raw:
  "dispersion_2D_with Inr one_band_eigvalsh one_band_system None 1 2
     = Inr [[- 2], [0], [0], [2]]"
  by (simp add: dispersion_2D_with_def linspace_two loop_body_def one_band_system_def
      one_band_eigvalsh_def)

lemma one_band_lattice:
  "dispersion_2D one_band_eigvalsh one_band_system None 1 2
     = Inr [[- 3 / 2 - sqrt 3 / 2], [- 3 / 2 + sqrt 3 / 2],
            [3 / 2 - sqrt 3 / 2], [3 / 2 + sqrt 3 / 2]]"
  by (simp add: dispersion_2D_def dispersion_2D_with_def linspace_two loop_body_def
      one_band_system_def one_band_eigvalsh_def momentum_to_lattice_value)

text \<open>
  C1, as stated: the numbers the loop produces would not depend on the momentum
  transformation of the notebook. They do. On the one-band system, on the grid of
  the four points \<open>(\<plusminus>1, \<plusminus>1)\<close>, the loop with \<open>momentum_to_lattice\<close> and the loop with
  the momenta passed on as they are give different energies.
\<close>

theorem transformation_changes_energies:
  "dispersion_2D_with Inr one_band_eigvalsh one_band_system None 1 2
     \<noteq> dispersion_2D one_band_eigvalsh one_band_system None 1 2"
  by (simp add: one_band_raw one_band_lattice)

text \<open>
  C1, amended. The energies are the library's results on inputs the notebook computes:
  for the grid \<open>momenta \<times> momenta\<close>, with \<open>kx\<close> in the outer loop, the eigenvalues of
  the matrix extracted at the arguments followed by the lattice coordinates
  \<open>(kx, kx / 2 + sqrt 3 / 2 * ky)\<close> of the momentum, in that order, up to the first
  exception of the library.
\<close>

theorem dispersion_2D_energies:
  "dispersion_2D eigvalsh syst args limit n =
     (case linspace (- limit) limit n of
        Inl e \<Rightarrow> Inl e
      | Inr momenta \<Rightarrow>
          first_error_or_all
            (map (\<lambda>(kx, ky).
                    case syst ((case args of None \<Rightarrow> [] | Some xs \<Rightarrow> xs)
                               @ [Number kx, Number (kx / 2 + sqrt 3 / 2 * ky)]) of
                      Inl e \<Rightarrow> Inl e
                    | Inr h \<Rightarrow> eigvalsh h)
                 (List.product momenta momenta)))"
  by (simp add: dispersion_2D_def dispersion_2D_with_eq loop_body_momentum_to_lattice
      cong: sum.case_cong)


section \<open>Exceptions of the library calls\<close>









lemma linalg_inv_Inl: "linalg_inv M = Inl e \<longleftrightarrow> det2 M = 0 \<and> e = LinAlgError"
  by (cases M) (auto simp: linalg_inv_def split: if_splits)



























section \<open>The Hamiltonian of the quantum dot\<close>

lemma flood_fill_inside: "s \<in> flood_fill inside start \<Longrightarrow> inside (pos s)"
  by (induction rule: flood_fill.induct) simp_all

lemma square_step_down: "0 < (x::int) \<Longrightarrow> (x - 1)\<^sup>2 \<le> x\<^sup>2"
  by (simp add: power2_eq_square algebra_simps)

lemma square_step_up: "(x::int) < 0 \<Longrightarrow> (x + 1)\<^sup>2 \<le> x\<^sup>2"
  by (simp add: power2_eq_square algebra_simps)

lemma disc_filled:
  "circle (pos (x, y)) \<Longrightarrow> (x, y) \<in> flood_fill circle (0, 0)"
proof (induction "nat (\<bar>x\<bar> + \<bar>y\<bar>)" arbitrary: x y rule: less_induct)
  case less
  consider "x = 0 \<and> y = 0" | "0 < x" | "x < 0" | "x = 0 \<and> 0 < y" | "x = 0 \<and> y < 0"
    by linarith
  then show ?case
  proof cases
    case 1
    with less.prems show ?thesis by (simp add: flood_fill.start)
  next
    case 2
    have "(x - 1)\<^sup>2 + y\<^sup>2 < 225"
      using less.prems square_step_down [OF 2] by (simp add: circle_pos)
    then have c: "circle (pos (x - 1, y))" by (simp add: circle_pos)
    have "nat (\<bar>x - 1\<bar> + \<bar>y\<bar>) < nat (\<bar>x\<bar> + \<bar>y\<bar>)" using 2 by linarith
    then have "(x - 1, y) \<in> flood_fill circle (0, 0)" using c by (rule less.hyps)
    moreover have "(x, y) \<in> {shift (x - 1, y) (1, 0), shift (x - 1, y) (- 1, 0),
                              shift (x - 1, y) (0, 1), shift (x - 1, y) (0, - 1)}"
      by (simp add: shift_def)
    ultimately show ?thesis using less.prems by (rule flood_fill.step)
  next
    case 3
    have "(x + 1)\<^sup>2 + y\<^sup>2 < 225"
      using less.prems square_step_up [OF 3] by (simp add: circle_pos)
    then have c: "circle (pos (x + 1, y))" by (simp add: circle_pos)
    have "nat (\<bar>x + 1\<bar> + \<bar>y\<bar>) < nat (\<bar>x\<bar> + \<bar>y\<bar>)" using 3 by linarith
    then have "(x + 1, y) \<in> flood_fill circle (0, 0)" using c by (rule less.hyps)
    moreover have "(x, y) \<in> {shift (x + 1, y) (1, 0), shift (x + 1, y) (- 1, 0),
                              shift (x + 1, y) (0, 1), shift (x + 1, y) (0, - 1)}"
      by (simp add: shift_def)
    ultimately show ?thesis using less.prems by (rule flood_fill.step)
  next
    case 4
    then have y: "0 < y" by simp
    have "x\<^sup>2 + (y - 1)\<^sup>2 < 225"
      using less.prems square_step_down [OF y] by (simp add: circle_pos)
    then have c: "circle (pos (x, y - 1))" by (simp add: circle_pos)
    have "nat (\<bar>x\<bar> + \<bar>y - 1\<bar>) < nat (\<bar>x\<bar> + \<bar>y\<bar>)" using y by linarith
    then have "(x, y - 1) \<in> flood_fill circle (0, 0)" using c by (rule less.hyps)
    moreover have "(x, y) \<in> {shift (x, y - 1) (1, 0), shift (x, y - 1) (- 1, 0),
                              shift (x, y - 1) (0, 1), shift (x, y - 1) (0, - 1)}"
      by (simp add: shift_def)
    ultimately show ?thesis using less.prems by (rule flood_fill.step)
  next
    case 5
    then have y: "y < 0" by simp
    have "x\<^sup>2 + (y + 1)\<^sup>2 < 225"
      using less.prems square_step_up [OF y] by (simp add: circle_pos)
    then have c: "circle (pos (x, y + 1))" by (simp add: circle_pos)
    have "nat (\<bar>x\<bar> + \<bar>y + 1\<bar>) < nat (\<bar>x\<bar> + \<bar>y\<bar>)" using y by linarith
    then have "(x, y + 1) \<in> flood_fill circle (0, 0)" using c by (rule less.hyps)
    moreover have "(x, y) \<in> {shift (x, y + 1) (1, 0), shift (x, y + 1) (- 1, 0),
                              shift (x, y + 1) (0, 1), shift (x, y + 1) (0, - 1)}"
      by (simp add: shift_def)
    ultimately show ?thesis using less.prems by (rule flood_fill.step)
  qed
qed

lemma flood_fill_circle: "s \<in> flood_fill circle (0, 0) \<longleftrightarrow> circle (pos s)"
  using flood_fill_inside [of s circle "(0, 0)"] disc_filled [of "fst s" "snd s"]
  by auto

lemma shape_circle: "shape circle (0, 0) = Inr {s. circle (pos s)}"
proof -
  have "circle (pos (0, 0))" by (simp add: circle_pos)
  moreover have "flood_fill circle (0, 0) = {s. circle (pos s)}"
    using flood_fill_circle by blast
  ultimately show ?thesis by (simp add: shape_def)
qed

lemma sys_value:
  "sys = Inr (set_hoppings neighbors (- t) (set_sites {s. circle (pos s)} (4 * t) Builder))"
  by (simp add: sys_def shape_circle)

lemma adjacent_cases:
  "nearest_neighbours i j \<longleftrightarrow>
     i = shift j (1, 0) \<or> i = shift j (0, 1) \<or> j = shift i (1, 0) \<or> j = shift i (0, 1)"
  by (cases i; cases j) (auto simp: nearest_neighbours_def shift_def)

lemma site_value_sys:
  "site_value (set_hoppings neighbors (- t) (set_sites {s. circle (pos s)} (4 * t) Builder)) s
     = (if circle (pos s) then Some (4 * t) else None)"
  by (simp add: set_hoppings_def set_sites_def Builder_def)

lemma hopping_value_sys:
  "hopping_value (set_hoppings neighbors (- t) (set_sites {s. circle (pos s)} (4 * t) Builder)) (i, j)
     = (if (i = shift j (1, 0) \<or> i = shift j (0, 1)) \<and> circle (pos i) \<and> circle (pos j)
        then Some (- t) else None)"
  by (simp add: set_hoppings_def set_sites_def Builder_def neighbors_def)

lemma hamiltonian_sys:
  "hamiltonian (set_hoppings neighbors (- t) (set_sites {s. circle (pos s)} (4 * t) Builder)) i j
     = (if circle (pos i) \<and> circle (pos j)
        then Some (if i = j then 4 * t else if nearest_neighbours i j then - t else 0)
        else None)"
  unfolding hamiltonian_def site_value_sys hopping_value_sys adjacent_cases
  by (auto simp: shift_def)

lemma nearest_neighbours_sym: "nearest_neighbours i j = nearest_neighbours j i"
  by (simp add: nearest_neighbours_def abs_minus_commute)

lemma quantum_dot_hamiltonian_symmetric:
  assumes "sys = Inr syst"
  shows "hamiltonian syst i j = hamiltonian syst j i"
proof -
  have "syst = set_hoppings neighbors (- t) (set_sites {s. circle (pos s)} (4 * t) Builder)"
    using assms by (simp add: sys_value)
  then show ?thesis
    using nearest_neighbours_sym [of i j] by (simp add: hamiltonian_sys)
qed

text \<open>
  C5. The system of the first notebook exists (the start \<open>(0, 0)\<close> is inside the
  circle), its sites are the lattice points inside the circle, each with the onsite
  value \<open>4 * t = 4\<close>; its stored hoppings join nearest neighbours inside the circle and
  carry \<open>- t = - 1\<close>; and the Hamiltonian has \<open>4 * t\<close> on the diagonal, \<open>- t\<close> between
  nearest neighbours and zero everywhere else.
\<close>

theorem quantum_dot_hamiltonian:
  "\<exists>syst. sys = Inr syst \<and>
     (\<forall>s. site_value syst s = (if circle (pos s) then Some (4 * t) else None)) \<and>
     (\<forall>i j. hopping_value syst (i, j)
              = (if (i = shift j (1, 0) \<or> i = shift j (0, 1)) \<and> circle (pos i) \<and> circle (pos j)
                 then Some (- t) else None)) \<and>
     (\<forall>i j. hamiltonian syst i j
              = (if circle (pos i) \<and> circle (pos j)
                 then Some (if i = j then 4 * t else if nearest_neighbours i j then - t else 0)
                 else None)) \<and>
     4 * t = 4 \<and> - t = - 1"
proof (intro exI conjI allI)
  show "sys = Inr (set_hoppings neighbors (- t) (set_sites {s. circle (pos s)} (4 * t) Builder))"
    by (rule sys_value)
  show "4 * t = 4" and "- t = - 1"
    by (simp_all add: t_def)
qed (rule site_value_sys hopping_value_sys hamiltonian_sys)+

theorem quantum_dot_hamiltonian_witness:
  "\<exists>syst. sys = Inr syst \<and>
     hamiltonian syst (0, 0) (0, 0) = Some 4 \<and>
     hamiltonian syst (1, 0) (0, 0) = Some (- 1) \<and>
     hamiltonian syst (0, 0) (0, 1) = Some (- 1) \<and>
     hamiltonian syst (0, 0) (1, 1) = Some 0 \<and>
     hamiltonian syst (9, 12) (9, 12) = None \<and>
     hamiltonian syst (14, 5) (14, 5) = Some 4"
proof -
  obtain syst where syst: "sys = Inr syst"
    and h: "\<And>i j. hamiltonian syst i j
              = (if circle (pos i) \<and> circle (pos j)
                 then Some (if i = j then 4 * t else if nearest_neighbours i j then - t else 0)
                 else None)"
    using quantum_dot_hamiltonian by blast
  have "hamiltonian syst (0, 0) (0, 0) = Some 4"
    and "hamiltonian syst (1, 0) (0, 0) = Some (- 1)"
    and "hamiltonian syst (0, 0) (0, 1) = Some (- 1)"
    and "hamiltonian syst (0, 0) (1, 1) = Some 0"
    and "hamiltonian syst (9, 12) (9, 12) = None"
    and "hamiltonian syst (14, 5) (14, 5) = Some 4"
    by (simp_all add: h circle_pos nearest_neighbours_def t_def)
  with syst show ?thesis by blast
qed

end
